theory Spec2Isabelle
  imports Main "HOL-Library.Word"
begin

unbundle bit_operations_syntax

section \<open>Bytes, Python slices and the exceptions of the program\<close>

text \<open>
  The program works on Python \<open>bytes\<close> objects: immutable sequences of integers in
  the range 0..255. A byte is an 8-bit word, a \<open>bytes\<close> object a list of them.
\<close>

type_synonym byte = "8 word"
type_synonym bytes = "byte list"

text \<open>
  Every exception the program can raise is a value. The first six are raised by the
  program's own statements (\<open>assert\<close>, \<open>raise RuntimeError\<close>); the others come from
  the interpreter and the libraries the program calls.
\<close>

datatype error =
    BadMagic                \<comment> \<open>\<open>assert magic == 0x61561\<close> in readBsddb\<close>
  | BadVersion              \<comment> \<open>\<open>assert version == 2\<close> in readBsddb\<close>
  | PasswordCheckError      \<comment> \<open>\<open>RuntimeError('password check error, ...')\<close>\<close>
  | NoSavedLogin            \<comment> \<open>\<open>RuntimeError('no saved login/password')\<close>\<close>
  | CannotFindKeyDb         \<comment> \<open>\<open>RuntimeError('cannot find key4.db or key3.db in ...')\<close>\<close>
  | AssertionError          \<comment> \<open>a failed \<open>assert\<close> of decryptPBE\<close>
  | IndexError              \<comment> \<open>index out of range\<close>
  | KeyError                \<comment> \<open>missing dictionary key\<close>
  | TypeError               \<comment> \<open>subscripting or unpacking \<open>None\<close>, or an object of the wrong kind\<close>
  | StructError             \<comment> \<open>\<open>struct.error\<close>: \<open>unpack\<close> on a buffer of the wrong size\<close>
  | ValueError              \<comment> \<open>raised by the cipher and number libraries\<close>
  | AttributeError          \<comment> \<open>a method the object does not have\<close>
  | PyAsn1Error             \<comment> \<open>raised by \<open>pyasn1\<close>'s DER decoder\<close>

text \<open>
  Python's \<open>xs[lo:hi]\<close>: a negative bound counts from the end, every bound is clamped
  to the sequence, and an empty range gives the empty sequence; a slice never raises.
\<close>

definition py_clamp :: "int \<Rightarrow> nat \<Rightarrow> nat" where
  "py_clamp i n = (if i < 0 then nat (i + int n) else min (nat i) n)"

definition py_slice :: "int option \<Rightarrow> int option \<Rightarrow> 'a list \<Rightarrow> 'a list" where
  "py_slice lo hi xs =
     (let n = length xs;
          a = (case lo of None \<Rightarrow> 0 | Some i \<Rightarrow> py_clamp i n);
          b = (case hi of None \<Rightarrow> n | Some j \<Rightarrow> py_clamp j n)
      in take (b - a) (drop a xs))"

text \<open>
  Sequencing: an exception raised by a statement ends the function with that exception,
  otherwise the rest runs with the statement's value. \<open>assertE\<close> is the \<open>assert\<close>
  statement of decryptPBE.
\<close>

definition bindE :: "error + 'a \<Rightarrow> ('a \<Rightarrow> error + 'b) \<Rightarrow> error + 'b" where
  "bindE m f = (case m of Inl e \<Rightarrow> Inl e | Inr x \<Rightarrow> f x)"

definition assertE :: "bool \<Rightarrow> error + 'a \<Rightarrow> error + 'a" where
  "assertE c m = (if c then m else Inl AssertionError)"

text \<open>Python's \<open>xs[i]\<close> for an index \<open>i \<ge> 0\<close>: IndexError out of range.\<close>

definition py_index :: "'a list \<Rightarrow> nat \<Rightarrow> error + 'a" where
  "py_index xs i = (if i < length xs then Inr (xs ! i) else Inl IndexError)"

text \<open>Python's \<open>b * n\<close> on bytes: a count below one gives the empty sequence.\<close>

definition py_repeat :: "'a \<Rightarrow> int \<Rightarrow> 'a list" where
  "py_repeat x n = replicate (nat n) x"

text \<open>An ASCII bytes literal \<open>b'...'\<close>.\<close>

definition ascii :: "string \<Rightarrow> bytes" where
  "ascii s = map of_char s"

section \<open>The libraries the program calls\<close>

text \<open>
  The hash, MAC, key-stretching and cipher primitives (\<open>hashlib\<close>, \<open>hmac\<close>,
  \<open>Crypto.Cipher\<close>) and the DER decoder (\<open>pyasn1\<close>) are not code of the program. The
  model takes them as a parameter: every definition below that calls one of them takes
  the record of the library functions as its first argument, and every theorem holds
  for all libraries unless it states an assumption on them.

  A cipher call covers \<open>new(key, MODE_CBC, iv).decrypt(data)\<close>; it can raise
  (a key or IV of the wrong size, data that is not a multiple of the block size).
\<close>

datatype asn1 =
    Sequence "asn1 list"
  | OctetString bytes
  | ObjectIdentifier string     \<comment> \<open>the dotted-decimal string \<open>str()\<close> returns\<close>
  | Integer int
  | Null

record library =
  sha1 :: "bytes \<Rightarrow> bytes"
  hmac_sha1 :: "bytes \<Rightarrow> bytes \<Rightarrow> bytes"
  pbkdf2_hmac_sha256 :: "bytes \<Rightarrow> bytes \<Rightarrow> int \<Rightarrow> int \<Rightarrow> error + bytes"
  des3_cbc_decrypt :: "bytes \<Rightarrow> bytes \<Rightarrow> bytes \<Rightarrow> error + bytes"
  aes_cbc_decrypt :: "bytes \<Rightarrow> bytes \<Rightarrow> bytes \<Rightarrow> error + bytes"
  der_decode :: "bytes \<Rightarrow> error + (asn1 \<times> bytes)"

section \<open>decryptMoz3DES\<close>

text \<open>
  Lines 167 to 175 of the source: the SHA-1/HMAC chain that gives the 3DES key and IV.
  It does not look at the ciphertext.
\<close>

definition moz3DES_key_iv :: "library \<Rightarrow> bytes \<Rightarrow> bytes \<Rightarrow> bytes \<Rightarrow> bytes \<times> bytes" where
  "moz3DES_key_iv L globalSalt masterPassword entrySalt =
     (let hp = sha1 L (globalSalt @ masterPassword);
          pes = entrySalt @ py_repeat 0 (20 - int (length entrySalt));
          chp = sha1 L (hp @ entrySalt);
          k1 = hmac_sha1 L chp (pes @ entrySalt);
          tk = hmac_sha1 L chp pes;
          k2 = hmac_sha1 L chp (tk @ entrySalt);
          k = k1 @ k2;
          iv = py_slice (Some (- 8)) None k;
          key = py_slice None (Some 24) k
      in (key, iv))"

definition decryptMoz3DES :: "library \<Rightarrow> bytes \<Rightarrow> bytes \<Rightarrow> bytes \<Rightarrow> bytes \<Rightarrow> error + bytes" where
  "decryptMoz3DES L globalSalt masterPassword entrySalt encryptedData =
     (case moz3DES_key_iv L globalSalt masterPassword entrySalt of
        (key, iv) \<Rightarrow> des3_cbc_decrypt L key iv encryptedData)"

text \<open>
  The derivation as the specification words it (section 4.3, \<open>legacy3DES\<close>), to be
  compared with the source's.
\<close>

definition pad_right_zero :: "nat \<Rightarrow> bytes \<Rightarrow> bytes" where
  "pad_right_zero n xs = xs @ replicate (n - length xs) 0"

definition last_bytes :: "nat \<Rightarrow> bytes \<Rightarrow> bytes" where
  "last_bytes n xs = drop (length xs - n) xs"

definition legacy3DES_spec :: "library \<Rightarrow> bytes \<Rightarrow> bytes \<Rightarrow> bytes \<Rightarrow> bytes \<Rightarrow> error + bytes" where
  "legacy3DES_spec L globalSalt masterPassword entrySalt ciphertext =
     (let hp = sha1 L (globalSalt @ masterPassword);
          pes = pad_right_zero 20 entrySalt;
          chp = sha1 L (hp @ entrySalt);
          k1 = hmac_sha1 L chp (pes @ entrySalt);
          tk = hmac_sha1 L chp pes;
          k2 = hmac_sha1 L chp (tk @ entrySalt)
      in des3_cbc_decrypt L (take 24 (k1 @ k2)) (last_bytes 8 (k1 @ k2)) ciphertext)"

section \<open>Decoded ASN.1 objects\<close>

text \<open>
  \<open>decoder.decode(b)\<close> returns a pair: the decoded object and the bytes left over. The
  program reads the object by position (\<open>x[0][1]\<close>), and takes \<open>str()\<close> of an object
  identifier, \<open>asOctets()\<close> of an octet string and \<open>int()\<close> of an integer. The model
  covers the shapes the program expects: a position is read in a \<open>Sequence\<close>, and any
  of the four operations on an object of another kind is reported as an exception.
\<close>

definition getitem :: "asn1 \<Rightarrow> nat \<Rightarrow> error + asn1" where
  "getitem x i = (case x of Sequence cs \<Rightarrow> py_index cs i | _ \<Rightarrow> Inl TypeError)"

fun at_path :: "asn1 \<Rightarrow> nat list \<Rightarrow> error + asn1" where
  "at_path x [] = Inr x"
| "at_path x (i # p) = (case getitem x i of Inl e \<Rightarrow> Inl e | Inr y \<Rightarrow> at_path y p)"

definition str_at :: "asn1 \<Rightarrow> nat list \<Rightarrow> error + string" where
  "str_at x p =
     (case at_path x p of Inl e \<Rightarrow> Inl e
      | Inr (ObjectIdentifier s) \<Rightarrow> Inr s
      | Inr _ \<Rightarrow> Inl TypeError)"

definition asOctets_at :: "asn1 \<Rightarrow> nat list \<Rightarrow> error + bytes" where
  "asOctets_at x p =
     (case at_path x p of Inl e \<Rightarrow> Inl e
      | Inr (OctetString b) \<Rightarrow> Inr b
      | Inr _ \<Rightarrow> Inl AttributeError)"

definition int_at :: "asn1 \<Rightarrow> nat list \<Rightarrow> error + int" where
  "int_at x p =
     (case at_path x p of Inl e \<Rightarrow> Inl e
      | Inr (Integer n) \<Rightarrow> Inr n
      | Inr _ \<Rightarrow> Inl TypeError)"

section \<open>decryptPBE\<close>

definition OID_pbeWithSha1AndTripleDES_CBC :: string where
  "OID_pbeWithSha1AndTripleDES_CBC = ''1.2.840.113549.1.12.5.1.3''"

definition OID_pbes2 :: string where
  "OID_pbes2 = ''1.2.840.113549.1.5.13''"

definition OID_pbkdf2 :: string where
  "OID_pbkdf2 = ''1.2.840.113549.1.5.12''"

definition OID_hmacWithSHA256 :: string where
  "OID_hmacWithSHA256 = ''1.2.840.113549.2.9''"

definition OID_aes256_CBC :: string where
  "OID_aes256_CBC = ''2.16.840.1.101.3.4.1.42''"

text \<open>
  The second branch of decryptPBE (lines 355 to 373), after the top-level object
  identifier has been found to be \<open>pkcs5 pbes2\<close>. \<open>d\<close> is \<open>decodedItem[0]\<close>.
\<close>

definition decryptPBE_pbes2 :: "library \<Rightarrow> asn1 \<Rightarrow> bytes \<Rightarrow> bytes \<Rightarrow> error + bytes" where
  "decryptPBE_pbes2 L d masterPassword globalSalt =
     bindE (str_at d [0, 1, 0, 0]) (\<lambda>o1.
     assertE (o1 = OID_pbkdf2) (
     bindE (str_at d [0, 1, 0, 1, 3, 0]) (\<lambda>o2.
     assertE (o2 = OID_hmacWithSHA256) (
     bindE (str_at d [0, 1, 1, 0]) (\<lambda>o3.
     assertE (o3 = OID_aes256_CBC) (
     bindE (asOctets_at d [0, 1, 0, 1, 0]) (\<lambda>entrySalt.
     bindE (int_at d [0, 1, 0, 1, 1]) (\<lambda>iterationCount.
     bindE (int_at d [0, 1, 0, 1, 2]) (\<lambda>keyLength.
     assertE (keyLength = 32) (
     let k = sha1 L (globalSalt @ masterPassword) in
     bindE (pbkdf2_hmac_sha256 L k entrySalt iterationCount keyLength) (\<lambda>key.
     bindE (asOctets_at d [0, 1, 1, 1]) (\<lambda>ivTail.
     let iv = [0x04, 0x0e] @ ivTail in
     bindE (asOctets_at d [1]) (\<lambda>cipherT.
     aes_cbc_decrypt L key iv cipherT)))))))))))))"

text \<open>
  decryptPBE returns a pair (bytes, algorithm), or, when neither branch is taken, runs
  off its end and so returns \<open>None\<close>: the result is an option.
\<close>

definition decryptPBE :: "library \<Rightarrow> asn1 \<times> bytes \<Rightarrow> bytes \<Rightarrow> bytes \<Rightarrow> error + (bytes \<times> string) option" where
  "decryptPBE L decodedItem masterPassword globalSalt =
     bindE (str_at (fst decodedItem) [0, 0]) (\<lambda>pbeAlgo.
       if pbeAlgo = OID_pbeWithSha1AndTripleDES_CBC then
         bindE (asOctets_at (fst decodedItem) [0, 1, 0]) (\<lambda>entrySalt.
         bindE (asOctets_at (fst decodedItem) [1]) (\<lambda>cipherT.
         bindE (decryptMoz3DES L globalSalt masterPassword entrySalt cipherT) (\<lambda>key.
         Inr (Some (py_slice None (Some 24) key, pbeAlgo)))))
       else if pbeAlgo = OID_pbes2 then
         bindE (decryptPBE_pbes2 L (fst decodedItem) masterPassword globalSalt) (\<lambda>clearText.
         Inr (Some (clearText, pbeAlgo)))
       else Inr None)"

text \<open>
  The PBES2 derivation as the specification words it (section 4.3, \<open>pbes2AesPbkdf2\<close>,
  at key length 32), and the decoded item that carries its parameters, laid out as the
  comment of lines 331 to 353 draws it: the two integers are the iteration count and
  the key length (the comment's \<open>INTEGER 20\<close> is 32, printed in hexadecimal).
\<close>

definition pbes2AesPbkdf2_spec ::
  "library \<Rightarrow> bytes \<Rightarrow> bytes \<Rightarrow> bytes \<Rightarrow> int \<Rightarrow> bytes \<Rightarrow> bytes \<Rightarrow> error + bytes" where
  "pbes2AesPbkdf2_spec L globalSalt masterPassword entrySalt iterationCount ivTail ciphertext =
     (let seed = sha1 L (globalSalt @ masterPassword) in
      case pbkdf2_hmac_sha256 L seed entrySalt iterationCount 32 of
        Inl e \<Rightarrow> Inl e
      | Inr key \<Rightarrow> aes_cbc_decrypt L key ([0x04, 0x0e] @ ivTail) ciphertext)"

definition pbes2_item :: "bytes \<Rightarrow> int \<Rightarrow> int \<Rightarrow> bytes \<Rightarrow> bytes \<Rightarrow> asn1" where
  "pbes2_item entrySalt iterationCount keyLength ivTail ciphertext =
     Sequence
      [Sequence
        [ObjectIdentifier OID_pbes2,
         Sequence
          [Sequence
            [ObjectIdentifier OID_pbkdf2,
             Sequence
              [OctetString entrySalt, Integer iterationCount, Integer keyLength,
               Sequence [ObjectIdentifier OID_hmacWithSHA256]]],
           Sequence [ObjectIdentifier OID_aes256_CBC, OctetString ivTail]]],
       OctetString ciphertext]"

definition pbe3des_item :: "bytes \<Rightarrow> bytes \<Rightarrow> asn1" where
  "pbe3des_item entrySalt ciphertext =
     Sequence
      [Sequence
        [ObjectIdentifier OID_pbeWithSha1AndTripleDES_CBC,
         Sequence [OctetString entrySalt, Integer 1]],
       OctetString ciphertext]"

section \<open>printASN1\<close>

text \<open>
  What printASN1 writes to the standard output, as a list of items: the name of a type
  at an indentation level, the braces of a sequence, the name of a known object
  identifier or the bytes of an unknown one, the bytes of an octet string or an integer
  (printed in hexadecimal), and the \<open>0\<close> printed for NULL.
\<close>

datatype printed =
    PType nat string
  | POpen
  | PClose nat
  | POidName string
  | POidUnknown bytes
  | PHex bytes
  | PZero

definition asn1Types :: "(byte \<times> string) list" where
  "asn1Types = [(0x30, ''SEQUENCE''), (4, ''OCTETSTRING''), (6, ''OBJECTIDENTIFIER''),
                (2, ''INTEGER''), (5, ''NULL'')]"

definition oidValues :: "(bytes \<times> string) list" where
  "oidValues =
     [([0x2a, 0x86, 0x48, 0x86, 0xf7, 0x0d, 0x01, 0x0c, 0x05, 0x01, 0x03],
         ''1.2.840.113549.1.12.5.1.3 pbeWithSha1AndTripleDES-CBC''),
      ([0x2a, 0x86, 0x48, 0x86, 0xf7, 0x0d, 0x03, 0x07], ''1.2.840.113549.3.7 des-ede3-cbc''),
      ([0x2a, 0x86, 0x48, 0x86, 0xf7, 0x0d, 0x01, 0x01, 0x01], ''1.2.840.113549.1.1.1 pkcs-1''),
      ([0x2a, 0x86, 0x48, 0x86, 0xf7, 0x0d, 0x01, 0x05, 0x0d], ''1.2.840.113549.1.5.13 pkcs5 pbes2''),
      ([0x2a, 0x86, 0x48, 0x86, 0xf7, 0x0d, 0x01, 0x05, 0x0c], ''1.2.840.113549.1.5.12 pkcs5 PBKDF2''),
      ([0x2a, 0x86, 0x48, 0x86, 0xf7, 0x0d, 0x02, 0x09], ''1.2.840.113549.2.9 hmacWithSHA256''),
      ([0x60, 0x86, 0x48, 0x01, 0x65, 0x03, 0x04, 0x01, 0x2a], ''2.16.840.1.101.3.4.1.42 aes256-CBC'')]"

text \<open>
  Lines 61 to 67: the length byte, and for a length byte with its top bit set the byte
  after it. The result is the pair (length, skip).
\<close>

definition read_length :: "bytes \<Rightarrow> error + (nat \<times> nat)" where
  "read_length d =
     (case py_index d 1 of Inl e \<Rightarrow> Inl e
      | Inr length1 \<Rightarrow>
          if length1 AND 0x80 \<noteq> 0
          then (case py_index d 2 of Inl e \<Rightarrow> Inl e | Inr length2 \<Rightarrow> Inr (unat length2, 1))
          else Inr (unat length1, 0))"

text \<open>
  printASN1 and its \<open>while\<close> loop over the children of a sequence. The function
  returns an integer, and \<open>None\<close> where its last branch runs off the end. The loop's
  state is \<open>seqLen\<close> and \<open>readLen\<close>.
\<close>

function printASN1 :: "bytes \<Rightarrow> int \<Rightarrow> nat \<Rightarrow> error + (printed list \<times> nat option)"
  and printASN1_while :: "bytes \<Rightarrow> nat \<Rightarrow> nat \<Rightarrow> int \<Rightarrow> nat \<Rightarrow> error + printed list"
where
  "printASN1 d l rl =
     (case py_index d 0 of Inl e \<Rightarrow> Inl e
      | Inr type \<Rightarrow>
     (case read_length d of Inl e \<Rightarrow> Inl e
      | Inr (len, skip) \<Rightarrow>
     (case map_of asn1Types type of None \<Rightarrow> Inl KeyError
      | Some name \<Rightarrow>
          if type = 0x30 then
            (case printASN1_while d skip rl (int len) 0 of Inl e \<Rightarrow> Inl e
             | Inr out \<Rightarrow> Inr ([PType rl name, POpen] @ out @ [PClose rl], Some (len + 2)))
          else if type = 6 then
            (let oidVal = py_slice (Some 2) (Some (2 + int len)) d
             in Inr ([PType rl name,
                      (case map_of oidValues oidVal of Some s \<Rightarrow> POidName s
                       | None \<Rightarrow> POidUnknown oidVal)],
                     Some (len + 2)))
          else if type = 4 then
            Inr ([PType rl name, PHex (py_slice (Some 2) (Some (2 + int len)) d)], Some (len + 2))
          else if type = 5 then
            Inr ([PType rl name, PZero], Some (len + 2))
          else if type = 2 then
            Inr ([PType rl name, PHex (py_slice (Some 2) (Some (2 + int len)) d)], Some (len + 2))
          else if int len = l - 2 then
            (case printASN1 (py_slice (Some 2) None d) (int len) (rl + 1) of Inl e \<Rightarrow> Inl e
             | Inr (out, r) \<Rightarrow> Inr ([PType rl name] @ out, Some len))
          else Inr ([PType rl name], None))))"
| "printASN1_while d skip rl seqLen readLen =
     (if seqLen > 0 then
        (case printASN1 (py_slice (Some (2 + int skip + int readLen)) None d) seqLen (rl + 1) of
           Inl e \<Rightarrow> Inl e
         | Inr (out, None) \<Rightarrow> Inl TypeError
         | Inr (out, Some len2) \<Rightarrow>
            (case printASN1_while d skip rl (seqLen - int len2) (readLen + len2) of
               Inl e \<Rightarrow> Inl e
             | Inr outs \<Rightarrow> Inr (out @ outs)))
      else Inr [])"
  by pat_completeness auto

text \<open>
  Termination: every call of printASN1 from the loop is on a shorter buffer, and every
  result of printASN1 the loop goes on with is at least 2, so \<open>seqLen\<close> decreases.
\<close>

lemma printASN1_result:
  assumes "printASN1_printASN1_while_dom (Inl (d, l, rl))"
      and "printASN1 d l rl = Inr (out, Some n)"
  shows "2 \<le> n"
  using assms(2)
  by (simp add: printASN1.psimps [OF assms(1)] asn1Types_def Let_def
      split: sum.splits option.splits if_splits prod.splits)

termination printASN1
  apply (relation "measures
     [\<lambda>x. case x of Inl (d, l, rl) \<Rightarrow> (if d = [] then 0 else 2 * length d + 2)
                  | Inr (d, skip, rl, seqLen, readLen) \<Rightarrow> 2 * length d + 1,
      \<lambda>x. case x of Inl (d, l, rl) \<Rightarrow> 0
                  | Inr (d, skip, rl, seqLen, readLen) \<Rightarrow> nat seqLen]")
  apply simp
  subgoal by (auto simp: py_index_def split: if_splits)
  subgoal by (auto simp: py_index_def py_slice_def py_clamp_def split: if_splits)
  subgoal by (auto simp: py_slice_def py_clamp_def)
  subgoal for d skip rl seqLen readLen x2 out r len2
    using printASN1_result [of "py_slice (Some (2 + int skip + int readLen)) None d" seqLen "rl + 1" out len2]
    by auto
  done

declare printASN1.simps [simp del] printASN1_while.simps [simp del]

section \<open>readBsddb\<close>

text \<open>
  \<open>unpack('<H', d[a:a+2])[0]\<close> and \<open>unpack('>L', d[a:a+4])[0]\<close>: the slice is clamped to
  the buffer, and \<open>unpack\<close> raises \<open>struct.error\<close> on a slice that is too short.
\<close>

fun unpack_H :: "bytes \<Rightarrow> error + nat" where
  "unpack_H [b0, b1] = Inr (unat b0 + 256 * unat b1)"
| "unpack_H _ = Inl StructError"

fun unpack_L :: "bytes \<Rightarrow> error + nat" where
  "unpack_L [b0, b1, b2, b3] = Inr (16777216 * unat b0 + 65536 * unat b1 + 256 * unat b2 + unat b3)"
| "unpack_L _ = Inl StructError"

definition getShortLE :: "bytes \<Rightarrow> nat \<Rightarrow> error + nat" where
  "getShortLE d a = unpack_H (py_slice (Some (int a)) (Some (int a + 2)) d)"

definition getLongBE :: "bytes \<Rightarrow> nat \<Rightarrow> error + nat" where
  "getLongBE d a = unpack_L (py_slice (Some (int a)) (Some (int a + 4)) d)"

text \<open>
  The open file: its content, the position of the next read, and the operations done
  on it so far (the model's record of the program's input operations, oldest first).
  \<open>read(n)\<close> returns at most \<open>n\<close> bytes from the position, fewer at the end of the
  file, and everything up to the end for a negative \<open>n\<close>.
\<close>

datatype io_op = Seek nat | Read nat int

record pyfile =
  content :: bytes
  pos :: nat
  ops :: "io_op list"

definition f_open :: "bytes \<Rightarrow> pyfile" where
  "f_open c = \<lparr> content = c, pos = 0, ops = [] \<rparr>"

definition f_seek :: "nat \<Rightarrow> pyfile \<Rightarrow> pyfile" where
  "f_seek p f = f \<lparr> pos := p, ops := ops f @ [Seek p] \<rparr>"

definition f_read :: "int \<Rightarrow> pyfile \<Rightarrow> bytes \<times> pyfile" where
  "f_read n f =
     (let avail = drop (pos f) (content f);
          data = (if n < 0 then avail else take (nat n) avail)
      in (data, f \<lparr> pos := pos f + length data, ops := ops f @ [Read (pos f) n] \<rparr>))"

text \<open>Lines 110 to 118: the four header fields and the two assertions.\<close>

definition readBsddb_header :: "bytes \<Rightarrow> error + (nat \<times> nat)" where
  "readBsddb_header header =
     bindE (getLongBE header 0) (\<lambda>magic.
     if magic \<noteq> 0x61561 then Inl BadMagic else
     bindE (getLongBE header 4) (\<lambda>version.
     if version \<noteq> 2 then Inl BadVersion else
     bindE (getLongBE header 12) (\<lambda>pagesize.
     bindE (getLongBE header 0x38) (\<lambda>nkeys.
     Inr (pagesize, nkeys)))))"

text \<open>
  Lines 136 to 145: the inner \<open>while nval != val\<close> loop over the offset table of one
  page. \<open>base\<close> is \<open>pagesize * page\<close>. It returns \<open>keys\<close>, \<open>offsetVals\<close> and
  \<open>readkeys\<close>.
\<close>

function readBsddb_offsets ::
  "bytes \<Rightarrow> nat \<Rightarrow> nat \<Rightarrow> nat \<Rightarrow> nat \<Rightarrow> nat \<Rightarrow> nat list \<Rightarrow> nat \<Rightarrow> error + (nat \<times> nat list \<times> nat)"
where
  "readBsddb_offsets offsets base i nval val keys offsetVals readkeys =
     (if nval \<noteq> val then
        (case getShortLE offsets (2 + i) of Inl e \<Rightarrow> Inl e
         | Inr key \<Rightarrow>
        (case getShortLE offsets (4 + i) of Inl e \<Rightarrow> Inl e
         | Inr val' \<Rightarrow>
        (case getShortLE offsets (8 + i) of Inl e \<Rightarrow> Inl e
         | Inr nval' \<Rightarrow>
             readBsddb_offsets offsets base (i + 4) nval' val' (keys + 1)
               (offsetVals @ [key + base, val' + base]) (readkeys + 1))))
      else Inr (keys, offsetVals, readkeys))"
  by pat_completeness auto

lemma py_slice_length:
  "length (py_slice (Some (int a)) (Some (int a + int n)) d) = min n (length d - a)"
proof -
  have "nat (int a + int n) = a + n" by simp
  then show ?thesis
    by (auto simp add: py_slice_def py_clamp_def Let_def min_def)
qed

lemma getShortLE_length:
  assumes "getShortLE d a = Inr v"
  shows "a + 2 \<le> length d"
proof -
  from assms have "length (py_slice (Some (int a)) (Some (int a + int 2)) d) = 2"
    by (cases "py_slice (Some (int a)) (Some (int a + int 2)) d" rule: unpack_H.cases)
       (simp_all add: getShortLE_def)
  then have "min 2 (length d - a) = 2"
    by (simp only: py_slice_length)
  then show ?thesis by (simp add: min_def split: if_splits)
qed

termination readBsddb_offsets
  apply (relation "measure (\<lambda>(offsets, base, i, nval, val, keys, offsetVals, readkeys). length offsets - i)")
   apply simp
  apply (auto dest!: getShortLE_length)
  done

declare readBsddb_offsets.simps [simp del]

text \<open>
  Lines 148 to 152: the \<open>for\<close> loop that reads the byte range between each offset and
  the next.
\<close>

fun readBsddb_records :: "nat list \<Rightarrow> nat list \<Rightarrow> pyfile \<Rightarrow> (error + bytes list) \<times> pyfile" where
  "readBsddb_records valKey [] f = (Inr [], f)"
| "readBsddb_records valKey (i # rest) f =
     (case py_index valKey i of Inl e \<Rightarrow> (Inl e, f)
      | Inr a \<Rightarrow>
      (case py_index valKey (i + 1) of Inl e \<Rightarrow> (Inl e, f_seek a f)
       | Inr b \<Rightarrow>
       (case f_read (int b - int a) (f_seek a f) of
          (data, f') \<Rightarrow>
          (case readBsddb_records valKey rest f' of
             (Inl e, f'') \<Rightarrow> (Inl e, f'')
           | (Inr datas, f'') \<Rightarrow> (Inr (data # datas), f'')))))"

text \<open>Lines 128 to 153: the outer \<open>while readkeys < nkeys\<close> loop over the pages.\<close>

lemma readBsddb_offsets_readkeys:
  "readBsddb_offsets offsets base i nval val keys offsetVals readkeys = Inr (keys', offsetVals', readkeys')
   \<Longrightarrow> readkeys \<le> readkeys' \<and> (nval \<noteq> val \<longrightarrow> readkeys < readkeys')"
proof (induction offsets base i nval val keys offsetVals readkeys rule: readBsddb_offsets.induct)
  case (1 offsets base i nval val keys offsetVals readkeys)
  show ?case
  proof (cases "nval = val")
    case True
    with "1.prems" show ?thesis by (simp add: readBsddb_offsets.simps [of offsets base i val val])
  next
    case False
    from False "1.prems" obtain key val' nval' where
      k: "getShortLE offsets (2 + i) = Inr key" and
      v: "getShortLE offsets (4 + i) = Inr val'" and
      n: "getShortLE offsets (8 + i) = Inr nval'" and
      r: "readBsddb_offsets offsets base (i + 4) nval' val' (keys + 1)
            (offsetVals @ [key + base, val' + base]) (readkeys + 1) = Inr (keys', offsetVals', readkeys')"
      by (auto simp: readBsddb_offsets.simps [of offsets base i nval val] split: sum.splits)
    from "1.IH" [OF False k v n r] show ?thesis by simp
  qed
qed

function readBsddb_pages ::
  "nat \<Rightarrow> nat \<Rightarrow> nat \<Rightarrow> nat \<Rightarrow> bytes list \<Rightarrow> pyfile \<Rightarrow> (error + bytes list) \<times> pyfile"
where
  "readBsddb_pages pagesize nkeys readkeys page db1 f =
     (if readkeys < nkeys then
        (case f_read ((int nkeys + 1) * 4 + 2) (f_seek (pagesize * page) f) of
           (offsets, f1) \<Rightarrow>
           (case readBsddb_offsets offsets (pagesize * page) 0 0 1 0 [] readkeys of
              Inl e \<Rightarrow> (Inl e, f1)
            | Inr (keys, offsetVals, readkeys') \<Rightarrow>
               (case readBsddb_records (sort (offsetVals @ [pagesize * (page + 1)])) [0..<keys * 2] f1 of
                  (Inl e, f2) \<Rightarrow> (Inl e, f2)
                | (Inr records, f2) \<Rightarrow>
                    readBsddb_pages pagesize nkeys readkeys' (page + 1) (db1 @ records) f2)))
      else (Inr db1, f))"
  by pat_completeness auto
termination
  apply (relation "measure (\<lambda>(pagesize, nkeys, readkeys, page, db1, f). nkeys - readkeys)")
   apply simp
  apply (auto dest!: readBsddb_offsets_readkeys)
  done

declare readBsddb_pages.simps [simp del]

text \<open>Lines 155 to 158: the records are paired into a dictionary, value first.\<close>

fun readBsddb_dict :: "bytes list \<Rightarrow> (bytes \<rightharpoonup> bytes) \<Rightarrow> error + (bytes \<rightharpoonup> bytes)" where
  "readBsddb_dict [] db = Inr db"
| "readBsddb_dict [v] db = Inl IndexError"
| "readBsddb_dict (v # k # rest) db = readBsddb_dict rest (db(k \<mapsto> v))"

text \<open>
  readBsddb on a file with the given content. It returns the dictionary, or the
  exception, and the file as the program leaves it.
\<close>

definition readBsddb :: "bytes \<Rightarrow> (error + (bytes \<rightharpoonup> bytes)) \<times> pyfile" where
  "readBsddb c =
     (case f_read 60 (f_open c) of
        (header, f) \<Rightarrow>
        (case readBsddb_header header of Inl e \<Rightarrow> (Inl e, f)
         | Inr (pagesize, nkeys) \<Rightarrow>
         (case readBsddb_pages pagesize nkeys 0 1 [] f of
            (Inl e, f') \<Rightarrow> (Inl e, f')
          | (Inr db1, f') \<Rightarrow> (readBsddb_dict db1 Map.empty, f'))))"

section \<open>extractSecretKey\<close>

definition CKA_ID :: bytes where
  "CKA_ID = [0xf8, 0, 0, 0, 0, 0, 0, 0, 0, 0, 0, 0, 0, 0, 0, 1]"

text \<open>The literal \<open>b'password-check\x02\x02'\<close>.\<close>

definition password_check :: bytes where
  "password_check = ascii ''password-check'' @ [2, 2]"

text \<open>\<open>d[k]\<close> on a dictionary: KeyError on a missing key.\<close>

definition dict_get :: "('k \<rightharpoonup> 'v) \<Rightarrow> 'k \<Rightarrow> error + 'v" where
  "dict_get d k = (case d k of None \<Rightarrow> Inl KeyError | Some v \<Rightarrow> Inr v)"

text \<open>
  \<open>long_to_bytes(n)\<close> of PyCryptodome 3.9.0, the version the source names: the
  big-endian bytes of \<open>n\<close> without leading zero bytes, and one zero byte when its loop
  \<open>while n > 0\<close> does not run.
\<close>

fun nat_to_bytes :: "nat \<Rightarrow> bytes" where
  "nat_to_bytes n = (if n = 0 then [] else nat_to_bytes (n div 256) @ [of_nat (n mod 256)])"

declare nat_to_bytes.simps [simp del]

definition long_to_bytes :: "int \<Rightarrow> bytes" where
  "long_to_bytes n = (if n > 0 then nat_to_bytes (nat n) else [0])"

text \<open>
  Lines 244 to 304: the private-key entry is decoded, decrypted and decoded twice more.
  Each printASN1 call is kept for the exception it can raise.
\<close>

definition extractSecretKey_privKey ::
  "library \<Rightarrow> bytes \<Rightarrow> bytes \<Rightarrow> (bytes \<rightharpoonup> bytes) \<Rightarrow> error + bytes" where
  "extractSecretKey_privKey L masterPassword globalSalt keyData =
     bindE (dict_get keyData CKA_ID) (\<lambda>privKeyEntry.
     bindE (py_index privKeyEntry 1) (\<lambda>saltLen.
     bindE (py_index privKeyEntry 2) (\<lambda>nameLen.
     let data = py_slice (Some (3 + int (unat saltLen) + int (unat nameLen))) None privKeyEntry in
     bindE (der_decode L data) (\<lambda>privKeyEntryASN1.
     bindE (printASN1 data (int (length data)) 0) (\<lambda>_.
     bindE (asOctets_at (fst privKeyEntryASN1) [0, 1, 0]) (\<lambda>entrySalt.
     bindE (asOctets_at (fst privKeyEntryASN1) [1]) (\<lambda>privKeyData.
     bindE (decryptMoz3DES L globalSalt masterPassword entrySalt privKeyData) (\<lambda>privKey.
     bindE (printASN1 privKey (int (length privKey)) 0) (\<lambda>_.
     bindE (der_decode L privKey) (\<lambda>privKeyASN1.
     bindE (asOctets_at (fst privKeyASN1) [2]) (\<lambda>prKey.
     bindE (printASN1 prKey (int (length prKey)) 0) (\<lambda>_.
     bindE (der_decode L prKey) (\<lambda>prKeyASN1.
     bindE (int_at (fst prKeyASN1) [3]) (\<lambda>n.
     Inr (long_to_bytes n)))))))))))))))"

text \<open>
  Lines 229 to 238: the global salt and the decrypted check value, read from the
  \<open>password-check\<close> and \<open>global-salt\<close> records.
\<close>

definition extractSecretKey_check ::
  "library \<Rightarrow> bytes \<Rightarrow> (bytes \<rightharpoonup> bytes) \<Rightarrow> error + (bytes \<times> bytes)" where
  "extractSecretKey_check L masterPassword keyData =
     bindE (dict_get keyData (ascii ''password-check'')) (\<lambda>pwdCheck.
     bindE (py_index pwdCheck 1) (\<lambda>entrySaltLen.
     let entrySalt = py_slice (Some 3) (Some (3 + int (unat entrySaltLen))) pwdCheck;
         encryptedPasswd = py_slice (Some (- 16)) None pwdCheck in
     bindE (dict_get keyData (ascii ''global-salt'')) (\<lambda>globalSalt.
     bindE (decryptMoz3DES L globalSalt masterPassword entrySalt encryptedPasswd) (\<lambda>cleartextData.
     Inr (globalSalt, cleartextData)))))"

text \<open>extractSecretKey returns the key, or \<open>None\<close> (line 243).\<close>

definition extractSecretKey ::
  "library \<Rightarrow> bytes \<Rightarrow> (bytes \<rightharpoonup> bytes) \<Rightarrow> error + bytes option" where
  "extractSecretKey L masterPassword keyData =
     bindE (extractSecretKey_check L masterPassword keyData) (\<lambda>(globalSalt, cleartextData).
     if cleartextData \<noteq> password_check then Inl PasswordCheckError
     else if keyData CKA_ID = None then Inr None
     else bindE (extractSecretKey_privKey L masterPassword globalSalt keyData) (\<lambda>key.
          Inr (Some key)))"

section \<open>getKey\<close>

text \<open>
  The profile directory holds \<open>key4.db\<close>, an SQLite database, or \<open>key3.db\<close>, a
  Berkeley DB file, or neither. Of the database the program reads two tables:
  \<open>metadata\<close> (columns id, item1, item2) and \<open>nssPrivate\<close> (columns a11, which may
  be NULL, and a102). \<open>fetchone()\<close> returns the first row of a result, or \<open>None\<close>.
\<close>

record key4db =
  metadata :: "(string \<times> bytes \<times> bytes) list"
  nssPrivate :: "(bytes option \<times> bytes) list"

record directory =
  key4_db :: "key4db option"
  key3_db :: "bytes option"

text \<open>\<open>SELECT item1,item2 FROM metadata WHERE id = 'password'\<close>, then \<open>fetchone()\<close>.\<close>

definition select_password :: "key4db \<Rightarrow> (bytes \<times> bytes) option" where
  "select_password db =
     (case filter (\<lambda>row. fst row = ''password'') (metadata db) of
        [] \<Rightarrow> None
      | row # _ \<Rightarrow> Some (snd row))"

text \<open>\<open>SELECT a11 FROM nssPrivate WHERE a11 IS NOT NULL and a102=?\<close>, then \<open>fetchone()\<close>.\<close>

definition select_a11 :: "key4db \<Rightarrow> bytes \<Rightarrow> bytes option" where
  "select_a11 db cka =
     (case filter (\<lambda>row. fst row \<noteq> None \<and> snd row = cka) (nssPrivate db) of
        [] \<Rightarrow> None
      | row # _ \<Rightarrow> fst row)"

text \<open>
  An assignment \<open>clearText, algo = decryptPBE(...)\<close>: unpacking \<open>None\<close> raises
  TypeError.
\<close>

definition unpack_pair :: "'a option \<Rightarrow> error + 'a" where
  "unpack_pair r = (case r of None \<Rightarrow> Inl TypeError | Some p \<Rightarrow> Inr p)"

text \<open>Lines 392 to 401: after the password check has passed.\<close>

definition getKey_private ::
  "library \<Rightarrow> bytes \<Rightarrow> key4db \<Rightarrow> bytes \<Rightarrow> error + (bytes option \<times> string option)" where
  "getKey_private L masterPassword db globalSalt =
     (case select_a11 db CKA_ID of
        None \<Rightarrow> Inl NoSavedLogin
      | Some a11 \<Rightarrow>
          bindE (printASN1 a11 (int (length a11)) 0) (\<lambda>_.
          bindE (der_decode L a11) (\<lambda>decoded_a11.
          bindE (decryptPBE L decoded_a11 masterPassword globalSalt) (\<lambda>r.
          bindE (unpack_pair r) (\<lambda>(clearText, algo).
          Inr (Some (py_slice None (Some 24) clearText), Some algo))))))"

text \<open>
  Lines 381 to 388: the global salt and the decrypted check value, read from the
  \<open>password\<close> row of \<open>metadata\<close>.
\<close>

definition getKey_check :: "library \<Rightarrow> bytes \<Rightarrow> key4db \<Rightarrow> error + (bytes \<times> bytes)" where
  "getKey_check L masterPassword db =
     (case select_password db of
        None \<Rightarrow> Inl TypeError
      | Some (globalSalt, item2) \<Rightarrow>
          bindE (printASN1 item2 (int (length item2)) 0) (\<lambda>_.
          bindE (der_decode L item2) (\<lambda>decodedItem2.
          bindE (decryptPBE L decodedItem2 masterPassword globalSalt) (\<lambda>r.
          bindE (unpack_pair r) (\<lambda>(clearText, algo).
          Inr (globalSalt, clearText))))))"

text \<open>Lines 378 to 402: the branch for \<open>key4.db\<close>.\<close>

definition getKey_key4 ::
  "library \<Rightarrow> bytes \<Rightarrow> key4db \<Rightarrow> error + (bytes option \<times> string option)" where
  "getKey_key4 L masterPassword db =
     bindE (getKey_check L masterPassword db) (\<lambda>(globalSalt, clearText).
     if clearText = password_check
     then getKey_private L masterPassword db globalSalt
     else Inr (None, None))"

text \<open>
  getKey returns a pair (key, algorithm); the key of the \<open>key3.db\<close> branch is what
  extractSecretKey returns, which can be \<open>None\<close>.
\<close>

definition getKey ::
  "library \<Rightarrow> bytes \<Rightarrow> directory \<Rightarrow> error + (bytes option \<times> string option)" where
  "getKey L masterPassword dir =
     (case key4_db dir of
        Some db \<Rightarrow> getKey_key4 L masterPassword db
      | None \<Rightarrow>
         (case key3_db dir of
            Some c \<Rightarrow>
              bindE (fst (readBsddb c)) (\<lambda>keyData.
              bindE (extractSecretKey L masterPassword keyData) (\<lambda>key.
              Inr (key, Some OID_pbeWithSha1AndTripleDES_CBC)))
          | None \<Rightarrow> Inl CannotFindKeyDb))"


section \<open>A library to run the program on\<close>

text \<open>
  To evaluate the program on concrete stores the library parameter needs a value. The
  functions below have the interface of the real primitives and nothing of their
  strength: a digest is 20 bytes computed from the sum of the message's bytes (the sum plus 1, plus 2,
  and so on to plus 20), a MAC is
  the digest of key and message, a cipher fails on a key, IV or data of the wrong size
  as the real one does and otherwise adds the sum of the first bytes of key and IV to
  every byte of the data, so that decryption inverts encryption. They are used only where a
  theorem is instantiated at a concrete input.
\<close>

definition toy_digest :: "bytes \<Rightarrow> bytes" where
  "toy_digest m =
     map (\<lambda>i. sum_list m + i) ([1, 2, 3, 4, 5, 6, 7, 8, 9, 10] @ [11, 12, 13, 14, 15, 16, 17, 18, 19, 20])"

definition toy_hmac :: "bytes \<Rightarrow> bytes \<Rightarrow> bytes" where
  "toy_hmac k m = toy_digest (k @ m)"

definition toy_pbkdf2 :: "bytes \<Rightarrow> bytes \<Rightarrow> int \<Rightarrow> int \<Rightarrow> error + bytes" where
  "toy_pbkdf2 password salt iterations dklen =
     (if iterations < 1 \<or> dklen < 1 then Inl ValueError
      else Inr (replicate (nat dklen) (sum_list (password @ salt))))"

definition toy_cbc_encrypt :: "nat list \<Rightarrow> nat \<Rightarrow> bytes \<Rightarrow> bytes \<Rightarrow> bytes \<Rightarrow> error + bytes" where
  "toy_cbc_encrypt key_sizes block key iv ptext =
     (if length key \<notin> set key_sizes \<or> length iv \<noteq> block \<or> length ptext mod block \<noteq> 0
      then Inl ValueError
      else Inr (map (\<lambda>b. b + (hd key + hd iv)) ptext))"

definition toy_cbc_decrypt :: "nat list \<Rightarrow> nat \<Rightarrow> bytes \<Rightarrow> bytes \<Rightarrow> bytes \<Rightarrow> error + bytes" where
  "toy_cbc_decrypt key_sizes block key iv ctext =
     (if length key \<notin> set key_sizes \<or> length iv \<noteq> block \<or> length ctext mod block \<noteq> 0
      then Inl ValueError
      else Inr (map (\<lambda>b. b - (hd key + hd iv)) ctext))"

text \<open>
  The decoder of the toy library knows the DER encodings of the objects the example
  stores hold, and refuses everything else.
\<close>

definition toy_der_decode :: "(bytes \<times> asn1) list \<Rightarrow> bytes \<Rightarrow> error + (asn1 \<times> bytes)" where
  "toy_der_decode known b =
     (case map_of known b of None \<Rightarrow> Inl PyAsn1Error | Some x \<Rightarrow> Inr (x, []))"

definition toy_library :: "(bytes \<times> asn1) list \<Rightarrow> library" where
  "toy_library known =
     \<lparr> sha1 = toy_digest,
       hmac_sha1 = toy_hmac,
       pbkdf2_hmac_sha256 = toy_pbkdf2,
       des3_cbc_decrypt = toy_cbc_decrypt [16, 24] 8,
       aes_cbc_decrypt = toy_cbc_decrypt [16, 24, 32] 16,
       der_decode = toy_der_decode known \<rparr>"

section \<open>Example stores\<close>

text \<open>
  Two small stores for the toy library, both with global salt \<open>01 02 03 04\<close>, entry
  salt \<open>09 09 09 09\<close> and a check value that the empty master password decrypts to
  \<open>password-check\x02\x02\<close>.

  The legacy store is a Berkeley DB file of page size 128 with two records,
  \<open>global-salt\<close> and \<open>password-check\<close>, both on page 1, and no private-key record.
\<close>

definition example_encrypted_check :: bytes where
  "example_encrypted_check = [40, 25, 43, 43, 47, 39, 42, 28, 229, 27, 32, 29, 27, 35, 186, 186]"

definition example_pwdCheck :: bytes where
  "example_pwdCheck = [3, 4, 1, 9, 9, 9, 9] @ example_encrypted_check"

definition zeros20 :: bytes where
  "zeros20 = [0, 0, 0, 0, 0, 0, 0, 0, 0, 0, 0, 0, 0, 0, 0, 0, 0, 0, 0, 0]"

definition example_key3 :: bytes where
  "example_key3 =
     [0x00, 0x06, 0x15, 0x61, 0, 0, 0, 2, 0, 0, 0, 0, 0, 0, 0, 0x80] @ zeros20 @ zeros20
     @ [0, 0, 0, 2] @ [0, 0, 0, 0] @ zeros20 @ zeros20 @ zeros20 @ [0, 0, 0, 0]
     @ [2, 0, 117, 0, 113, 0, 99, 0, 76, 0, 0, 0, 76, 0, 0, 0] @ zeros20 @ zeros20 @ zeros20
     @ example_pwdCheck @ ascii ''password-check'' @ [1, 2, 3, 4] @ ascii ''global-salt''"

text \<open>A file of 60 bytes whose magic number is \<open>0x00061562\<close>.\<close>

definition bad_magic_file :: bytes where
  "bad_magic_file =
     [0x00, 0x06, 0x15, 0x62, 0, 0, 0, 2] @ zeros20 @ zeros20 @ [0, 0, 0, 0, 0, 0, 0, 0, 0, 0, 0, 0]"

text \<open>The dictionary that readBsddb reads from \<open>example_key3\<close>.\<close>

definition example_keyData :: "bytes \<rightharpoonup> bytes" where
  "example_keyData =
     Map.empty(ascii ''password-check'' \<mapsto> example_pwdCheck, ascii ''global-salt'' \<mapsto> [1, 2, 3, 4])"

definition example_legacy_dir :: directory where
  "example_legacy_dir = \<lparr> key4_db = None, key3_db = Some example_key3 \<rparr>"

text \<open>
  The modern store: the \<open>password\<close> row holds the DER encoding of the check item (a
  \<open>pbeWithSha1AndTripleDES-CBC\<close> item), and the private-key table is a parameter.
  The private-key item \<open>example_a11\<close> encrypts sixteen bytes \<open>05\<close> under entry salt
  \<open>07 07 07 07\<close>.
\<close>

definition der_pbe3des_header :: "byte \<Rightarrow> bytes" where
  "der_pbe3des_header s =
     [0x30, 0x2c, 0x30, 0x18, 0x06, 0x0b,
      0x2a, 0x86, 0x48, 0x86, 0xf7, 0x0d, 0x01, 0x0c, 0x05, 0x01, 0x03,
      0x30, 0x09, 0x04, 0x04, s, s, s, s, 0x02, 0x01, 0x01, 0x04, 0x10]"

definition example_item2 :: bytes where
  "example_item2 = der_pbe3des_header 9 @ example_encrypted_check"

definition example_a11_ciphertext :: bytes where
  "example_a11_ciphertext =
     [69, 69, 69, 69, 69, 69, 69, 69, 69, 69, 69, 69, 69, 69, 69, 69]"

definition example_a11 :: bytes where
  "example_a11 = der_pbe3des_header 7 @ example_a11_ciphertext"

definition example_library :: library where
  "example_library =
     toy_library
       [(example_item2, pbe3des_item [9, 9, 9, 9] example_encrypted_check),
        (example_a11, pbe3des_item [7, 7, 7, 7] example_a11_ciphertext)]"

definition example_key4 :: "(bytes option \<times> bytes) list \<Rightarrow> key4db" where
  "example_key4 rows = \<lparr> metadata = [(''password'', [1, 2, 3, 4], example_item2)], nssPrivate = rows \<rparr>"

definition example_modern_dir :: "(bytes option \<times> bytes) list \<Rightarrow> directory" where
  "example_modern_dir rows = \<lparr> key4_db = Some (example_key4 rows), key3_db = None \<rparr>"

section \<open>Properties\<close>

subsection \<open>Auxiliary facts\<close>

lemma bindE_simps [simp]: "bindE (Inl e) f = Inl e" "bindE (Inr x) f = f x"
  by (simp_all add: bindE_def)

lemma assertE_simps [simp]: "assertE True m = m" "assertE False m = Inl AssertionError"
  by (simp_all add: assertE_def)

lemmas asn1_defs = str_at_def asOctets_at_def int_at_def getitem_def py_index_def

lemmas oid_defs = OID_pbes2_def OID_pbeWithSha1AndTripleDES_CBC_def OID_pbkdf2_def
  OID_hmacWithSHA256_def OID_aes256_CBC_def

lemmas toy_defs = toy_library_def toy_digest_def toy_hmac_def toy_pbkdf2_def
  toy_cbc_decrypt_def toy_cbc_encrypt_def toy_der_decode_def

lemmas example_defs = example_key3_def zeros20_def example_pwdCheck_def example_encrypted_check_def
  ascii_def example_item2_def example_a11_def example_a11_ciphertext_def der_pbe3des_header_def

lemmas example_eval = example_defs example_library_def toy_defs dict_get_def py_index_def
  py_slice_def py_clamp_def py_repeat_def decryptMoz3DES_def moz3DES_key_iv_def Let_def
  sum_list_replicate password_check_def

lemma py_slice_prefix: "py_slice None (Some (int n)) xs = take n xs"
  by (cases "n \<le> length xs") (simp_all add: py_slice_def py_clamp_def Let_def min_def)

lemma py_slice_suffix: "0 < n \<Longrightarrow> py_slice (Some (- int n)) None xs = drop (length xs - n) xs"
  by (simp add: py_slice_def py_clamp_def Let_def) (simp add: nat_diff_distrib')

subsection \<open>The legacy 3DES derivation\<close>

text \<open>
  C1. For every globalSalt, masterPassword, entrySalt of at most 20 bytes and
  ciphertext, decryptMoz3DES returns what the specification's \<open>legacy3DES\<close> describes:
  \<open>hp = SHA1(globalSalt || masterPassword)\<close>, \<open>pes\<close> the entry salt padded on the right
  with zero bytes to 20 bytes (its length is 20), \<open>chp = SHA1(hp || entrySalt)\<close>,
  \<open>k1 = HMAC-SHA1(chp, pes || entrySalt)\<close>, \<open>tk = HMAC-SHA1(chp, pes)\<close>,
  \<open>k2 = HMAC-SHA1(chp, tk || entrySalt)\<close>, the key the first 24 bytes and the IV the
  last 8 bytes of \<open>k1 || k2\<close>, and the result the 3DES-CBC decryption under them,
  returned as the cipher gives it.
\<close>

theorem decryptMoz3DES_legacy3DES:
  assumes "length entrySalt \<le> 20"
  shows "decryptMoz3DES L globalSalt masterPassword entrySalt ciphertext
           = legacy3DES_spec L globalSalt masterPassword entrySalt ciphertext
         \<and> length (pad_right_zero 20 entrySalt) = 20"
proof -
  have pes: "entrySalt @ py_repeat 0 (20 - int (length entrySalt)) = pad_right_zero 20 entrySalt"
    using assms by (simp add: py_repeat_def pad_right_zero_def nat_diff_distrib')
  have iv: "py_slice (Some (- 8)) None k = last_bytes 8 k" for k :: bytes
    using py_slice_suffix [of 8 k] by (simp add: last_bytes_def)
  have key: "py_slice None (Some 24) k = take 24 k" for k :: bytes
    using py_slice_prefix [of 24 k] by simp
  show ?thesis
    using assms
    by (simp add: decryptMoz3DES_def moz3DES_key_iv_def legacy3DES_spec_def Let_def pes iv key)
       (simp add: pad_right_zero_def)
qed

lemma toy_decrypt_example:
  "decryptMoz3DES (toy_library []) [1, 2, 3] [4, 5] [9, 9, 9, 9] [1, 2, 3, 4, 5, 6, 7, 8]
     = Inr [105, 106, 107, 108, 109, 110, 111, 112]"
  by (simp add: decryptMoz3DES_def moz3DES_key_iv_def toy_defs py_repeat_def py_slice_def
      py_clamp_def Let_def sum_list_replicate)

theorem decryptMoz3DES_legacy3DES_witness:
  "length [9, 9, 9, 9 :: byte] \<le> 20
   \<and> legacy3DES_spec (toy_library []) [1, 2, 3] [4, 5] [9, 9, 9, 9] [1, 2, 3, 4, 5, 6, 7, 8]
       = Inr [105, 106, 107, 108, 109, 110, 111, 112]
   \<and> length (pad_right_zero 20 [9, 9, 9, 9 :: byte]) = 20"
  using decryptMoz3DES_legacy3DES [of "[9, 9, 9, 9]" "toy_library []" "[1, 2, 3]" "[4, 5]" "[1, 2, 3, 4, 5, 6, 7, 8]"]
  by (simp add: toy_decrypt_example)

subsection \<open>The PBES2 derivation\<close>

text \<open>
  C3. For every globalSalt, masterPassword, entry salt, iteration count, IV tail and
  ciphertext, decryptPBE on the decoded item that carries these PBES2 parameters with
  key length 32 returns what the specification's \<open>pbes2AesPbkdf2\<close> describes: the
  AES-CBC decryption of the ciphertext under the key
  \<open>PBKDF2-HMAC-SHA256(SHA1(globalSalt || masterPassword), entrySalt, iterationCount, 32)\<close>
  and the IV \<open>04 0e || ivTail\<close>, paired with the PBES2 object identifier; an
  exception of the library is passed on.
\<close>

theorem decryptPBE_pbes2AesPbkdf2:
  "decryptPBE L (pbes2_item entrySalt iterationCount 32 ivTail ciphertext, rest) masterPassword globalSalt
     = (case pbes2AesPbkdf2_spec L globalSalt masterPassword entrySalt iterationCount ivTail ciphertext of
          Inl e \<Rightarrow> Inl e
        | Inr clearText \<Rightarrow> Inr (Some (clearText, OID_pbes2)))"
  by (simp add: decryptPBE_def decryptPBE_pbes2_def pbes2_item_def pbes2AesPbkdf2_spec_def
      asn1_defs oid_defs Let_def split: sum.splits)

subsection \<open>Unsupported parameters\<close>

text \<open>
  C6. The claim is that decryptPBE fails with an error whenever the PBES2 parameters
  declare a key length other than 32 or the top-level object identifier is neither
  \<open>pbeWithSha1AndTripleDES-CBC\<close> nor \<open>pkcs5 pbes2\<close>. On a PBES2 item with key length
  16 the assertion of line 362 fails, as claimed. On an item whose top-level object
  identifier is \<open>des-ede3-cbc\<close> neither branch is taken and no \<open>else\<close> is written:
  decryptPBE returns \<open>None\<close> and raises nothing.
\<close>

theorem decryptPBE_unsupported:
  "decryptPBE L (pbes2_item entrySalt iterationCount 16 ivTail ciphertext, []) masterPassword globalSalt
     = Inl AssertionError
   \<and> decryptPBE L
        (Sequence [Sequence [ObjectIdentifier ''1.2.840.113549.3.7'', OctetString ivTail],
                   OctetString ciphertext], [])
        masterPassword globalSalt
     = Inr None"
  by (simp add: decryptPBE_def decryptPBE_pbes2_def pbes2_item_def asn1_defs oid_defs)

subsection \<open>Round trip\<close>

lemma toy_cbc_round_trip:
  "toy_cbc_encrypt sizes block key iv p = Inr c \<Longrightarrow> toy_cbc_decrypt sizes block key iv c = Inr p"
  by (auto simp: toy_cbc_encrypt_def toy_cbc_decrypt_def comp_def split: if_splits)

lemma example_encrypt:
  "toy_cbc_encrypt [16, 24] 8
     (fst (moz3DES_key_iv example_library [1, 2, 3, 4] [] [9, 9, 9, 9]))
     (snd (moz3DES_key_iv example_library [1, 2, 3, 4] [] [9, 9, 9, 9])) password_check
   = Inr example_encrypted_check"
  by (simp add: example_eval ascii_def)

text \<open>
  C8. Round trip. The program has no encryption of its own, so the 3DES-CBC encryption
  is a parameter \<open>encrypt\<close>, a function that can fail as the decryption can. For every
  cipher library whose decryption inverts that encryption, every globalSalt,
  masterPassword, entrySalt of at most 20 bytes and plaintext whose length is a
  multiple of 8: if \<open>encrypt\<close> under the key and IV that decryptMoz3DES derives gives a
  ciphertext, then decryptMoz3DES on that ciphertext with the same arguments returns
  the plaintext.
\<close>

theorem legacy3DES_round_trip:
  assumes "\<forall>key iv p c. encrypt key iv p = Inr c \<longrightarrow> des3_cbc_decrypt L key iv c = Inr p"
      and "length entrySalt \<le> 20"
      and "length plaintext mod 8 = 0"
      and "moz3DES_key_iv L globalSalt masterPassword entrySalt = (key, iv)"
      and "encrypt key iv plaintext = Inr ciphertext"
  shows "decryptMoz3DES L globalSalt masterPassword entrySalt ciphertext = Inr plaintext"
  using assms(1,4,5) by (simp add: decryptMoz3DES_def)

theorem legacy3DES_round_trip_witness:
  "decryptMoz3DES example_library [1, 2, 3, 4] [] [9, 9, 9, 9] example_encrypted_check
     = Inr password_check"
proof (rule legacy3DES_round_trip
    [where encrypt = "toy_cbc_encrypt [16, 24] 8", OF _ _ _ prod.collapse [symmetric] example_encrypt])
  show "\<forall>key iv p c. toy_cbc_encrypt [16, 24] 8 key iv p = Inr c
          \<longrightarrow> des3_cbc_decrypt example_library key iv c = Inr p"
    by (simp add: example_library_def toy_library_def toy_cbc_round_trip)
  show "length [9, 9, 9, 9 :: byte] \<le> 20" by simp
  show "length password_check mod 8 = 0" by (simp add: password_check_def ascii_def)
qed

subsection \<open>What printASN1 rejects\<close>







lemmas printASN1_eval = printASN1.simps printASN1_while.simps read_length_def py_index_def
  asn1Types_def oidValues_def py_slice_def py_clamp_def







subsection \<open>The header of the legacy store\<close>

lemma py_slice_nat: "py_slice (Some (int a)) (Some (int a + int n)) d = take n (drop a d)"
proof (cases "a \<le> length d")
  case True
  have "nat (int a + int n) = a + n" by simp
  with True show ?thesis
    by (simp add: py_slice_def py_clamp_def Let_def min_def)
next
  case False
  then show ?thesis
    by (simp add: py_slice_def py_clamp_def Let_def min_def)
qed

lemma getLongBE_alt: "getLongBE d a = unpack_L (take 4 (drop a d))"
  using py_slice_nat [of a 4 d] by (simp add: getLongBE_def)

lemma getShortLE_alt: "getShortLE d a = unpack_H (take 2 (drop a d))"
  using py_slice_nat [of a 2 d] by (simp add: getShortLE_def)

lemma getLongBE_take:
  assumes "a + 4 \<le> n"
  shows "getLongBE (take n c) a = getLongBE c a"
proof -
  have "take 4 (drop a (take n c)) = take 4 (drop a c)"
    using assms by (simp add: drop_take min_def)
  then show ?thesis by (simp add: getLongBE_alt)
qed

lemma getLongBE_defined:
  assumes "a + 4 \<le> length d"
  shows "\<exists>v. getLongBE d a = Inr v"
proof -
  define xs where "xs = drop a d"
  have "Suc (Suc (Suc (Suc 0))) \<le> length xs" using assms by (simp add: xs_def)
  then obtain b0 b1 b2 b3 r where "xs = b0 # b1 # b2 # b3 # r"
    unfolding Suc_le_length_iff by blast
  then have "drop a d = b0 # b1 # b2 # b3 # r" by (simp add: xs_def)
  then show ?thesis by (simp add: getLongBE_alt)
qed

lemma f_read_header:
  "f_read 60 (f_open c)
     = (take 60 c, \<lparr> content = c, pos = length (take 60 c), ops = [Read 0 60] \<rparr>)"
  by (simp add: f_read_def f_open_def Let_def)

text \<open>
  C7. On a file that holds at least the eight bytes of the two fields (so on every
  file with a 60-byte header), if the magic number is not \<open>0x00061561\<close> or the version
  is not 2, readBsddb fails with the assertion error of the magic number or of the
  version (the specification's BadFormat), and the only operation done on the file is
  the read of the 60 header bytes at position 0: no page is sought or read.
\<close>

theorem readBsddb_bad_header:
  assumes "getLongBE c 0 \<noteq> Inr 0x61561 \<or> getLongBE c 4 \<noteq> Inr 2"
      and "8 \<le> length c"
  shows "fst (readBsddb c) = Inl (if getLongBE c 0 \<noteq> Inr 0x61561 then BadMagic else BadVersion)
         \<and> ops (snd (readBsddb c)) = [Read 0 60]"
proof -
  obtain magic where m: "getLongBE c 0 = Inr magic"
    using assms(2) getLongBE_defined [of 0 c] by auto
  obtain version where v: "getLongBE c 4 = Inr version"
    using assms(2) getLongBE_defined [of 4 c] by auto
  have hm: "getLongBE (take 60 c) 0 = Inr magic"
    using m by (simp add: getLongBE_take)
  have hv: "getLongBE (take 60 c) 4 = Inr version"
    using v by (simp add: getLongBE_take)
  have "readBsddb_header (take 60 c) = Inl (if magic \<noteq> 0x61561 then BadMagic else BadVersion)"
    using assms(1) m v by (auto simp: readBsddb_header_def hm hv)
  then show ?thesis
    using m by (simp add: readBsddb_def f_read_header)
qed

lemma bad_magic_example:
  "getLongBE bad_magic_file 0 = Inr 0x61562" "length bad_magic_file = 60"
  by (simp_all add: bad_magic_file_def zeros20_def getLongBE_alt)

theorem readBsddb_bad_header_witness:
  "fst (readBsddb bad_magic_file) = Inl BadMagic
   \<and> ops (snd (readBsddb bad_magic_file)) = [Read 0 60]"
  using readBsddb_bad_header [of bad_magic_file] by (simp add: bad_magic_example)

subsection \<open>The legacy file is only read\<close>

lemma content_f_seek [simp]: "content (f_seek p f) = content f"
  by (simp add: f_seek_def)






subsection \<open>The example stores, evaluated\<close>

lemma example_readBsddb: "fst (readBsddb example_key3) = Inr example_keyData"
  by (simp add: example_keyData_def example_defs readBsddb_def readBsddb_header_def getLongBE_def getShortLE_def
     py_slice_def py_clamp_def f_read_def f_open_def f_seek_def py_index_def Let_def
     readBsddb_pages.simps readBsddb_offsets.simps upt_rec)

lemma example_decrypt_check:
  "decryptMoz3DES example_library [1, 2, 3, 4] [] [9, 9, 9, 9] example_encrypted_check
     = Inr password_check"
  by (simp add: example_eval)

lemma example_decrypt_check_wrong:
  "decryptMoz3DES example_library [1, 2, 3, 4] [1] [9, 9, 9, 9] example_encrypted_check
     = Inr [16, 1, 19, 19, 23, 15, 18, 4, 205, 3, 8, 5, 3, 11, 162, 162]"
  by (simp add: example_eval)

lemma example_legacy_check:
  "extractSecretKey_check example_library [] example_keyData = Inr ([1, 2, 3, 4], password_check)"
  "extractSecretKey_check example_library [1] example_keyData
     = Inr ([1, 2, 3, 4], [16, 1, 19, 19, 23, 15, 18, 4, 205, 3, 8, 5, 3, 11, 162, 162])"
  by (simp_all add: extractSecretKey_check_def example_keyData_def example_eval)

lemma example_printASN1:
  "printASN1 example_item2 (int (length example_item2)) 0 = Inr
     ([PType 0 ''SEQUENCE'', POpen, PType 1 ''SEQUENCE'', POpen,
       PType 2 ''OBJECTIDENTIFIER'',
       POidName ''1.2.840.113549.1.12.5.1.3 pbeWithSha1AndTripleDES-CBC'',
       PType 2 ''SEQUENCE'', POpen, PType 3 ''OCTETSTRING'',
       PHex [9, 9, 9, 9], PType 3 ''INTEGER'', PHex [1], PClose 2, PClose 1,
       PType 1 ''OCTETSTRING'', PHex example_encrypted_check, PClose 0],
      Some 46)"
  by (simp add: example_defs printASN1_eval)

lemma example_printASN1_a11:
  "printASN1 example_a11 (int (length example_a11)) 0 = Inr
     ([PType 0 ''SEQUENCE'', POpen, PType 1 ''SEQUENCE'', POpen,
       PType 2 ''OBJECTIDENTIFIER'',
       POidName ''1.2.840.113549.1.12.5.1.3 pbeWithSha1AndTripleDES-CBC'',
       PType 2 ''SEQUENCE'', POpen, PType 3 ''OCTETSTRING'',
       PHex [7, 7, 7, 7], PType 3 ''INTEGER'', PHex [1], PClose 2, PClose 1,
       PType 1 ''OCTETSTRING'', PHex example_a11_ciphertext, PClose 0],
      Some 46)"
  by (simp add: example_defs printASN1_eval)

lemma example_der_decode:
  "der_decode example_library example_item2 = Inr (pbe3des_item [9, 9, 9, 9] example_encrypted_check, [])"
  "der_decode example_library example_a11 = Inr (pbe3des_item [7, 7, 7, 7] example_a11_ciphertext, [])"
  by (simp_all add: example_library_def toy_library_def toy_der_decode_def example_defs)

lemma decryptPBE_pbe3des:
  "decryptPBE L (pbe3des_item entrySalt ciphertext, rest) masterPassword globalSalt
     = bindE (decryptMoz3DES L globalSalt masterPassword entrySalt ciphertext) (\<lambda>key.
       Inr (Some (py_slice None (Some 24) key, OID_pbeWithSha1AndTripleDES_CBC)))"
  by (simp add: decryptPBE_def pbe3des_item_def asn1_defs oid_defs)

lemma example_select_password:
  "select_password (example_key4 rows) = Some ([1, 2, 3, 4], example_item2)"
  by (simp add: select_password_def example_key4_def)

lemma example_modern_check:
  "getKey_check example_library [] (example_key4 rows) = Inr ([1, 2, 3, 4], password_check)"
  "getKey_check example_library [1] (example_key4 rows)
     = Inr ([1, 2, 3, 4], [16, 1, 19, 19, 23, 15, 18, 4, 205, 3, 8, 5, 3, 11, 162, 162])"
  by (simp_all add: getKey_check_def example_select_password example_printASN1 example_der_decode
      decryptPBE_pbe3des example_decrypt_check example_decrypt_check_wrong unpack_pair_def
      py_slice_def py_clamp_def password_check_def ascii_def)

lemma example_decrypt_a11:
  "decryptMoz3DES example_library [1, 2, 3, 4] [] [7, 7, 7, 7] example_a11_ciphertext
     = Inr [5, 5, 5, 5, 5, 5, 5, 5, 5, 5, 5, 5, 5, 5, 5, 5]"
  by (simp add: example_eval)

lemma example_private:
  "getKey_private example_library [] (example_key4 [(Some example_a11, CKA_ID)]) [1, 2, 3, 4]
     = Inr (Some [5, 5, 5, 5, 5, 5, 5, 5, 5, 5, 5, 5, 5, 5, 5, 5], Some OID_pbeWithSha1AndTripleDES_CBC)"
  by (simp add: getKey_private_def select_a11_def example_key4_def example_printASN1_a11
      example_der_decode decryptPBE_pbe3des example_decrypt_a11 unpack_pair_def
      py_slice_def py_clamp_def)


lemma example_no_CKA_ID: "example_keyData CKA_ID = None"
  by (simp add: example_keyData_def CKA_ID_def ascii_def)


lemma example_getKey_short:
  "getKey example_library [] (example_modern_dir [(Some example_a11, CKA_ID)])
     = Inr (Some [5, 5, 5, 5, 5, 5, 5, 5, 5, 5, 5, 5, 5, 5, 5, 5], Some OID_pbeWithSha1AndTripleDES_CBC)"
  by (simp add: getKey_def getKey_key4_def example_modern_dir_def example_modern_check example_private)

subsection \<open>Determinism\<close>



subsection \<open>A check value that does not match\<close>





subsection \<open>The length of the key\<close>

text \<open>
  C5, as claimed: whenever the extraction succeeds the key is exactly 24 bytes long. On
  the modern path with a private-key item whose ciphertext is 16 bytes long the
  extraction succeeds with a key of 16 bytes.
\<close>

theorem modern_key_shorter_than_24:
  "getKey example_library [] (example_modern_dir [(Some example_a11, CKA_ID)])
     = Inr (Some [5, 5, 5, 5, 5, 5, 5, 5, 5, 5, 5, 5, 5, 5, 5, 5], Some OID_pbeWithSha1AndTripleDES_CBC)
   \<and> length [5, 5, 5, 5, 5, 5, 5, 5, 5, 5, 5, 5, 5, 5, 5, 5 :: byte] \<noteq> 24"
  by (simp add: example_getKey_short)

text \<open>
  C5, amended. On the modern path, whenever the extraction returns a key, the check
  value matched and the key is the first 24 bytes of what decryptPBE returns for the
  private-key item: its length is the smaller of 24 and the length of that plaintext,
  so at most 24, and exactly 24 when the plaintext has at least 24 bytes.
\<close>

theorem modern_key_length:
  assumes "key4_db dir = Some db" and "getKey L mp dir = Inr (Some key, algo)"
  shows "\<exists>gs a11 dec clear a.
           getKey_check L mp db = Inr (gs, password_check)
           \<and> select_a11 db CKA_ID = Some a11
           \<and> der_decode L a11 = Inr dec
           \<and> decryptPBE L dec mp gs = Inr (Some (clear, a))
           \<and> algo = Some a
           \<and> key = take 24 clear
           \<and> length key = min 24 (length clear)"
proof -
  from assms have k4: "getKey_key4 L mp db = Inr (Some key, algo)"
    by (simp add: getKey_def)
  then obtain gs where chk: "getKey_check L mp db = Inr (gs, password_check)"
    and priv: "getKey_private L mp db gs = Inr (Some key, algo)"
    by (auto simp: getKey_key4_def bindE_def split: sum.splits if_splits)
  from priv obtain a11 where a11: "select_a11 db CKA_ID = Some a11"
    by (auto simp: getKey_private_def split: option.splits)
  from priv a11 obtain dec where dec: "der_decode L a11 = Inr dec"
    by (auto simp: getKey_private_def bindE_def split: sum.splits)
  from priv a11 dec obtain clear a where r: "decryptPBE L dec mp gs = Inr (Some (clear, a))"
    and k: "key = py_slice None (Some 24) clear" and al: "algo = Some a"
    by (auto simp: getKey_private_def bindE_def unpack_pair_def split: sum.splits option.splits)
  have t: "key = take 24 clear"
    using k py_slice_prefix [of 24 clear] by simp
  then have l: "length key = min 24 (length clear)"
    by (simp add: min.commute)
  from chk a11 dec r al t l show ?thesis by blast
qed

theorem modern_key_length_witness:
  "\<exists>gs a11 dec clear a.
      getKey_check example_library [] (example_key4 [(Some example_a11, CKA_ID)]) = Inr (gs, password_check)
      \<and> select_a11 (example_key4 [(Some example_a11, CKA_ID)]) CKA_ID = Some a11
      \<and> der_decode example_library a11 = Inr dec
      \<and> decryptPBE example_library dec [] gs = Inr (Some (clear, a))
      \<and> Some OID_pbeWithSha1AndTripleDES_CBC = Some a
      \<and> [5, 5, 5, 5, 5, 5, 5, 5, 5, 5, 5, 5, 5, 5, 5, 5 :: byte] = take 24 clear
      \<and> length [5, 5, 5, 5, 5, 5, 5, 5, 5, 5, 5, 5, 5, 5, 5, 5 :: byte] = min 24 (length clear)"
  by (rule modern_key_length [OF _ example_getKey_short]) (simp add: example_modern_dir_def)

text \<open>
  On the legacy path the key is \<open>long_to_bytes\<close> of the integer the store holds, as
  long as that integer is: an integer below \<open>256 ^ 23\<close>, such as a 24-byte key whose
  first byte is zero, gives fewer than 24 bytes.
\<close>

lemma long_to_bytes_example: "long_to_bytes 0x000102 = [1, 2]"
  by (simp add: long_to_bytes_def nat_to_bytes.simps)

subsection \<open>No private-key record\<close>

text \<open>
  C10. On the legacy path, if the check value matches and the store has no record
  keyed by \<open>CKA_ID\<close>, getKey returns \<open>None\<close> paired with the object identifier of
  \<open>pbeWithSha1AndTripleDES-CBC\<close> and raises nothing. On the modern path, if the check
  value matches and no row of the private-key table has the identifier \<open>CKA_ID\<close>,
  getKey raises the error \<open>no saved login/password\<close>.
\<close>

theorem no_private_key_record:
  "(key4_db dir = None \<and> key3_db dir = Some c \<and> fst (readBsddb c) = Inr keyData
      \<and> extractSecretKey_check L mp keyData = Inr (gs, password_check) \<and> keyData CKA_ID = None
     \<longrightarrow> getKey L mp dir = Inr (None, Some OID_pbeWithSha1AndTripleDES_CBC))
   \<and> (key4_db dir' = Some db \<and> getKey_check L mp db = Inr (gs', password_check)
      \<and> select_a11 db CKA_ID = None
     \<longrightarrow> getKey L mp dir' = Inl NoSavedLogin)"
  by (simp add: getKey_def extractSecretKey_def getKey_key4_def getKey_private_def)

theorem no_private_key_record_witness:
  "getKey example_library [] example_legacy_dir = Inr (None, Some OID_pbeWithSha1AndTripleDES_CBC)
   \<and> getKey example_library [] (example_modern_dir []) = Inl NoSavedLogin"
proof -
  have legacy: "key4_db example_legacy_dir = None" "key3_db example_legacy_dir = Some example_key3"
    by (simp_all add: example_legacy_dir_def)
  have modern: "key4_db (example_modern_dir []) = Some (example_key4 [])"
    by (simp add: example_modern_dir_def)
  have none: "select_a11 (example_key4 []) CKA_ID = None"
    by (simp add: select_a11_def example_key4_def)
  show ?thesis
    using no_private_key_record [of example_legacy_dir example_key3 example_keyData example_library
        "[]" "[1, 2, 3, 4]" "example_modern_dir []" "example_key4 []" "[1, 2, 3, 4]"]
    by (simp only: legacy modern none example_readBsddb example_legacy_check example_no_CKA_ID
        example_modern_check)
qed

end
